theory Spec2Isabelle
  imports Complex_Main
begin

section \<open>Extent strings and geotransforms of \<open>nansat.domain.Domain\<close>\<close>

text \<open>
  This theory embeds the extent-option parser and the geotransform derivation of
  \<^verbatim>\<open>src/nansat/domain.py\<close>: the static methods \<^verbatim>\<open>_check_extent_input\<close>,
  \<^verbatim>\<open>_create_extent_dict\<close>, \<^verbatim>\<open>_get_geotransform\<close>, \<^verbatim>\<open>_transform_tr\<close>,
  \<^verbatim>\<open>_transform_ts\<close>, the method \<^verbatim>\<open>_convert_extentDic\<close> and the branch of
  \<^verbatim>\<open>Domain.__init__\<close> that chains them. Isabelle identifiers cannot start with an
  underscore, so each function keeps its Python name without the leading underscore.

  Conventions of the embedding:
  \<^item> a Python exception is a value \<open>Inl e\<close> of the result type \<open>error + 'a\<close>;
  \<^item> a Python float is a real number: rounding, overflow, infinities and NaN are not
    part of the model, and division by zero raises, as Python's float division does;
  \<^item> a dictionary with string keys is a map \<open>string \<rightharpoonup> 'v\<close>;
  \<^item> the parser never computes with the numbers it reads, so it is polymorphic in the
    type of numbers and takes the conversion \<^verbatim>\<open>float(el)\<close> as a parameter
    \<open>to_float\<close>, which returns \<open>None\<close> where Python raises \<^verbatim>\<open>ValueError\<close>.
\<close>

subsection \<open>Exceptions\<close>

text \<open>
  The payload of an \<^verbatim>\<open>OptionError\<close>: one constructor per message of the source,
  carrying the values the message is formatted with.
\<close>

datatype option_msg =
    GroupCount nat
  | WrongArity string nat nat
  | NotNumeric
  | UnexpectedOption string
  | IllegalExtent
  | TrTooLarge real real

text \<open>
  Modelled from the spec: the class \<^verbatim>\<open>OptionError\<close> is imported from
  \<^verbatim>\<open>nansat.tools\<close>, which is not among the sources. The spec has the arity error
  reach the caller with its own message (option, expected and actual count), so the class
  is taken not to derive from \<^verbatim>\<open>ValueError\<close>: the \<^verbatim>\<open>except ValueError\<close>
  clause of \<^verbatim>\<open>_check_extent_input\<close> does not catch it.
\<close>

datatype error =
    OptionError option_msg
  | IndexError
  | KeyError
  | ValueError
  | ZeroDivisionError

definition and_then :: "error + 'a \<Rightarrow> ('a \<Rightarrow> error + 'b) \<Rightarrow> error + 'b" where
  "and_then m f = (case m of Inl e \<Rightarrow> Inl e | Inr x \<Rightarrow> f x)"

subsection \<open>String operations\<close>

text \<open>The characters \<^verbatim>\<open>str.strip()\<close> and \<^verbatim>\<open>str.split()\<close> treat as whitespace
  (the ASCII ones: space, tab, line feed, vertical tab, form feed, carriage return).\<close>

definition is_space :: "char \<Rightarrow> bool" where
  "is_space c \<longleftrightarrow>
     c = CHR '' '' \<or> c = CHR 0x09 \<or> c = CHR 0x0A \<or> c = CHR 0x0B \<or> c = CHR 0x0C \<or> c = CHR 0x0D"

text \<open>\<^verbatim>\<open>s.strip()\<close>\<close>

definition strip :: "string \<Rightarrow> string" where
  "strip s = rev (dropWhile is_space (rev (dropWhile is_space s)))"

text \<open>\<^verbatim>\<open>s.split(sep)\<close> for a one-character separator: empty pieces are kept, and the
  result is never empty. \<open>cons_first c ws\<close> puts \<open>c\<close> in front of the first piece.\<close>

definition cons_first :: "char \<Rightarrow> string list \<Rightarrow> string list" where
  "cons_first c ws = (c # hd ws) # tl ws"

fun split_on :: "char \<Rightarrow> string \<Rightarrow> string list" where
  "split_on sep [] = [[]]"
| "split_on sep (c # cs) =
     (if c = sep then [] # split_on sep cs else cons_first c (split_on sep cs))"

text \<open>\<^verbatim>\<open>s.split()\<close>: the maximal runs of non-whitespace characters.\<close>

fun split_ws :: "string \<Rightarrow> string list" where
  "split_ws [] = []"
| "split_ws (c # cs) =
     (if is_space c then split_ws cs
      else if cs = [] \<or> is_space (hd cs) then [c] # split_ws cs
      else cons_first c (split_ws cs))"

subsection \<open>Reading a number\<close>

text \<open>
  \<open>py_float\<close> is the instance of \<^verbatim>\<open>float(el)\<close> used to run the parser on concrete
  strings. It reads the decimal literals \<^verbatim>\<open>[+-]digits[.digits][e[+-]digits]\<close> (at
  least one digit in the mantissa). The literals \<^verbatim>\<open>inf\<close> and \<^verbatim>\<open>nan\<close>, which Python
  also accepts, have no real value and are not read. The theorems about the parser hold
  for every conversion, not only for this one.
\<close>

definition digit_of :: "char \<Rightarrow> nat option" where
  "digit_of =
     map_of [(CHR ''0'', 0), (CHR ''1'', 1), (CHR ''2'', 2), (CHR ''3'', 3), (CHR ''4'', 4),
             (CHR ''5'', 5), (CHR ''6'', 6), (CHR ''7'', 7), (CHR ''8'', 8), (CHR ''9'', 9)]"

fun digits_val :: "nat \<Rightarrow> string \<Rightarrow> nat option" where
  "digits_val acc [] = Some acc"
| "digits_val acc (c # cs) =
     (case digit_of c of None \<Rightarrow> None | Some d \<Rightarrow> digits_val (10 * acc + d) cs)"

definition split_sign :: "string \<Rightarrow> int \<times> string" where
  "split_sign s =
     (case s of
        [] \<Rightarrow> (1, [])
      | c # r \<Rightarrow> if c = CHR ''-'' then (- 1, r) else if c = CHR ''+'' then (1, r) else (1, s))"

definition exponent_of :: "string \<Rightarrow> int option" where
  "exponent_of ex =
     (case ex of
        [] \<Rightarrow> Some 0
      | _ # r \<Rightarrow>
          (let (sg, ds) = split_sign r
           in if ds = [] then None else map_option (\<lambda>n. sg * int n) (digits_val 0 ds)))"

definition unsigned_float :: "string \<Rightarrow> real option" where
  "unsigned_float u =
     (let not_e = (\<lambda>c. c \<noteq> CHR ''e'' \<and> c \<noteq> CHR ''E'');
          mant = takeWhile not_e u;
          ex = dropWhile not_e u;
          ip = takeWhile (\<lambda>c. c \<noteq> CHR ''.'') mant;
          fp = drop 1 (dropWhile (\<lambda>c. c \<noteq> CHR ''.'') mant)
      in if ip = [] \<and> fp = [] then None
         else
           (case (digits_val 0 ip, digits_val 0 fp, exponent_of ex) of
              (Some i, Some f, Some e) \<Rightarrow>
                Some ((real i + real f / 10 ^ length fp)
                      * (if 0 \<le> e then 10 ^ nat e else 1 / 10 ^ nat (- e)))
            | _ \<Rightarrow> None))"

definition py_float :: "string \<Rightarrow> real option" where
  "py_float s =
     (let (sg, u) = split_sign (strip s)
      in map_option (\<lambda>v. real_of_int sg * v) (unsigned_float u))"

subsection \<open>The extent parser\<close>

text \<open>\<^verbatim>\<open>[float(el) for el in els]\<close>: the first token that is not a number raises
  \<^verbatim>\<open>ValueError\<close>.\<close>

fun floats :: "(string \<Rightarrow> 'a option) \<Rightarrow> string list \<Rightarrow> error + 'a list" where
  "floats to_float [] = Inr []"
| "floats to_float (el # els) =
     (case to_float el of
        None \<Rightarrow> Inl ValueError
      | Some v \<Rightarrow> and_then (floats to_float els) (\<lambda>vs. Inr (v # vs)))"

text \<open>
  \<^verbatim>\<open>_check_extent_input(option_vars, params, size)\<close>. \<^verbatim>\<open>option_vars[0]\<close> raises
  \<^verbatim>\<open>IndexError\<close> on an empty group. The list of floats is built before its length is
  compared, so a token that is not a number is reported before a wrong count.
\<close>

definition check_extent_input ::
  "(string \<Rightarrow> 'a option) \<Rightarrow> string list \<Rightarrow> string list \<Rightarrow> nat \<Rightarrow> error + unit" where
  "check_extent_input to_float option_vars params size' =
     (case option_vars of
        [] \<Rightarrow> Inl IndexError
      | name # vals \<Rightarrow>
          if name \<in> set params then
            (case floats to_float vals of
               Inl ValueError \<Rightarrow> Inl (OptionError NotNumeric)
             | Inl e \<Rightarrow> Inl e
             | Inr fs \<Rightarrow>
                 if length fs \<noteq> size'
                 then Inl (OptionError (WrongArity name size' (length vals)))
                 else Inr ())
          else Inl (OptionError (UnexpectedOption name)))"

text \<open>The loop \<^verbatim>\<open>for option in options: extent[option[0]] = [float(el) for el in option[1:]]\<close>.\<close>

fun fill_extent ::
  "(string \<Rightarrow> 'a option) \<Rightarrow> string list list \<Rightarrow> (string \<rightharpoonup> 'a list)
     \<Rightarrow> error + (string \<rightharpoonup> 'a list)" where
  "fill_extent to_float [] extent = Inr extent"
| "fill_extent to_float (option # options) extent =
     and_then (floats to_float (tl option)) (\<lambda>fs.
       (case option of
          [] \<Rightarrow> Inl IndexError
        | name # _ \<Rightarrow> fill_extent to_float options (extent(name \<mapsto> fs))))"

text \<open>\<^verbatim>\<open>_create_extent_dict(extent_str)\<close>\<close>

definition create_extent_dict ::
  "(string \<Rightarrow> 'a option) \<Rightarrow> string \<Rightarrow> error + (string \<rightharpoonup> 'a list)" where
  "create_extent_dict to_float extent_str =
     (let options = tl (split_on (CHR ''-'') (strip extent_str))
      in if length options \<noteq> 2 then Inl (OptionError (GroupCount (length options)))
         else
           (let options = map split_ws options
            in and_then (check_extent_input to_float (options ! 0) [''te'', ''lle''] 4) (\<lambda>_.
               and_then (check_extent_input to_float (options ! 1) [''ts'', ''tr''] 2) (\<lambda>_.
               fill_extent to_float options Map.empty))))"

subsection \<open>The geotransform\<close>

type_synonym extent_dict = "string \<rightharpoonup> real list"

text \<open>\<^verbatim>\<open>d[k]\<close> on a dictionary and \<^verbatim>\<open>xs[i]\<close> on a list, for an index \<open>i \<ge> 0\<close>.\<close>

definition getkey :: "(string \<rightharpoonup> 'v) \<Rightarrow> string \<Rightarrow> error + 'v" where
  "getkey d k = (case d k of None \<Rightarrow> Inl KeyError | Some v \<Rightarrow> Inr v)"

definition getitem :: "'a list \<Rightarrow> nat \<Rightarrow> error + 'a" where
  "getitem xs i = (if i < length xs then Inr (xs ! i) else Inl IndexError)"

text \<open>Float division \<^verbatim>\<open>a / b\<close> and the truncation \<^verbatim>\<open>int(x)\<close> (toward zero).\<close>

definition py_div :: "real \<Rightarrow> real \<Rightarrow> error + real" where
  "py_div a b = (if b = 0 then Inl ZeroDivisionError else Inr (a / b))"

definition py_int :: "real \<Rightarrow> int" where
  "py_int x = (if 0 \<le> x then \<lfloor>x\<rfloor> else \<lceil>x\<rceil>)"

text \<open>\<^verbatim>\<open>_transform_tr(width, height, tr_arr)\<close>\<close>

definition transform_tr ::
  "real \<Rightarrow> real \<Rightarrow> real list \<Rightarrow> error + (real \<times> real \<times> real \<times> real)" where
  "transform_tr width height tr_arr =
     and_then (getitem tr_arr 0) (\<lambda>resolution_x.
     and_then (getitem tr_arr 1) (\<lambda>tr1.
       (let resolution_y = - tr1
        in if width < resolution_x \<or> height < resolution_y
           then Inl (OptionError (TrTooLarge width height))
           else
             and_then (py_div width resolution_x) (\<lambda>raster_x_size.
             and_then (py_div height resolution_y) (\<lambda>q.
               Inr (resolution_x, resolution_y, raster_x_size, \<bar>q\<bar>))))))"

text \<open>\<^verbatim>\<open>_transform_ts(width, height, ts_arr)\<close>: unpacking \<^verbatim>\<open>ts_arr\<close> into two names
  raises \<^verbatim>\<open>ValueError\<close> unless it has exactly two elements.\<close>

definition transform_ts ::
  "real \<Rightarrow> real \<Rightarrow> real list \<Rightarrow> error + (real \<times> real \<times> real \<times> real)" where
  "transform_ts width height ts_arr =
     (case ts_arr of
        [raster_x_size, raster_y_size] \<Rightarrow>
          and_then (py_div width raster_x_size) (\<lambda>resolution_x.
          and_then (py_div height raster_y_size) (\<lambda>q.
            Inr (resolution_x, - \<bar>q\<bar>, raster_x_size, raster_y_size)))
      | _ \<Rightarrow> Inl ValueError)"

text \<open>\<^verbatim>\<open>_get_geotransform(extent_dict)\<close>: the six coefficients and the raster size.\<close>

definition get_geotransform :: "extent_dict \<Rightarrow> error + (real list \<times> int \<times> int)" where
  "get_geotransform extent_dict =
     and_then (getkey extent_dict ''te'') (\<lambda>te.
     and_then (getitem te 2) (\<lambda>te2.
     and_then (getitem te 0) (\<lambda>te0.
     and_then (getitem te 3) (\<lambda>te3.
     and_then (getitem te 1) (\<lambda>te1.
       (let width = te2 - te0; height = te3 - te1
        in if width \<le> 0 \<or> height \<le> 0 then Inl (OptionError IllegalExtent)
           else
             and_then
               (if extent_dict ''tr'' \<noteq> None
                then and_then (getkey extent_dict ''tr'') (transform_tr width height)
                else and_then (getkey extent_dict ''ts'') (transform_ts width height))
               (\<lambda>(resolution_x, resolution_y, raster_x_size, raster_y_size).
                  Inr ([te0, resolution_x, 0, te3, 0, resolution_y],
                       py_int raster_x_size, py_int raster_y_size))))))))"

subsection \<open>From \<open>lle\<close> to \<open>te\<close>, and the constructor's branch\<close>

text \<open>
  \<^verbatim>\<open>_convert_extentDic(dstSRS, extentDic)\<close>. The coordinate transformation belongs to
  the geospatial library: \<open>transform_point\<close> stands for
  \<^verbatim>\<open>osr.CoordinateTransformation(NSR(), dstSRS).TransformPoint\<close>, without the third
  coordinate, which the source discards. The source stores the new key in the dictionary
  it was given and returns that dictionary; the model returns the updated map.
\<close>

definition convert_extentDic ::
  "(real \<Rightarrow> real \<Rightarrow> real \<times> real) \<Rightarrow> extent_dict \<Rightarrow> error + extent_dict" where
  "convert_extentDic transform_point extentDic =
     and_then (getkey extentDic ''lle'') (\<lambda>lle.
     and_then (getitem lle 0) (\<lambda>lle0.
     and_then (getitem lle 3) (\<lambda>lle3.
     and_then (getitem lle 2) (\<lambda>lle2.
     and_then (getitem lle 1) (\<lambda>lle1.
       (let (x1, y1) = transform_point lle0 lle3;
            (x2, y2) = transform_point lle2 lle3;
            (x3, y3) = transform_point lle2 lle1;
            (x4, y4) = transform_point lle0 lle1;
            minX = min x1 (min x2 (min x3 x4));
            maxX = max x1 (max x2 (max x3 x4));
            minY = min y1 (min y2 (min y3 y4));
            maxY = max y1 (max y2 (max y3 y4))
        in Inr (extentDic(''te'' \<mapsto> [minX, minY, maxX, maxY]))))))))"

text \<open>
  The branch of \<^verbatim>\<open>Domain.__init__\<close> for a spatial reference and an extent string:
  parse, convert \<open>lle\<close> when the key is there, derive. The result is the geotransform,
  the raster size and the dictionary kept as \<^verbatim>\<open>self.extent_dict\<close>.
\<close>

definition domain_from_extent ::
  "(string \<Rightarrow> real option) \<Rightarrow> (real \<Rightarrow> real \<Rightarrow> real \<times> real) \<Rightarrow> string
     \<Rightarrow> error + ((real list \<times> int \<times> int) \<times> extent_dict)" where
  "domain_from_extent to_float transform_point ext =
     and_then (create_extent_dict to_float ext) (\<lambda>extent_dict.
     and_then
       (if extent_dict ''lle'' \<noteq> None
        then convert_extentDic transform_point extent_dict
        else Inr extent_dict)
       (\<lambda>extent_dict.
     and_then (get_geotransform extent_dict) (\<lambda>geo. Inr (geo, extent_dict))))"

subsection \<open>Notions used to state the properties\<close>

text \<open>The option groups of an extent string: the value of \<^verbatim>\<open>options\<close> after line 508 of
  the source, \<^verbatim>\<open>map(lambda opt: opt.split(), extent_str.strip().split('-')[1:])\<close>.\<close>

definition option_groups :: "string \<Rightarrow> string list list" where
  "option_groups extent_str = map split_ws (tl (split_on (CHR ''-'') (strip extent_str)))"

text \<open>
  The documented input format (docstrings of \<^verbatim>\<open>Domain.__init__\<close> and of
  \<^verbatim>\<open>_create_extent_dict\<close>): two groups, each a hyphen, an option name and its values,
  all separated by single spaces, as in \<^verbatim>\<open>-te 100 2000 300 10000 -tr 300 200\<close>.
\<close>

definition group_str :: "string \<Rightarrow> string list \<Rightarrow> string" where
  "group_str name vals = name @ concat (map ((#) (CHR '' '')) vals)"

definition extent_string :: "string \<Rightarrow> string list \<Rightarrow> string \<Rightarrow> string list \<Rightarrow> string" where
  "extent_string name1 vals1 name2 vals2 =
     CHR ''-'' # group_str name1 vals1 @ '' -'' @ group_str name2 vals2"

text \<open>A token with at least one character, no whitespace and no hyphen.\<close>

definition plain_token :: "string \<Rightarrow> bool" where
  "plain_token w \<longleftrightarrow> w \<noteq> [] \<and> list_all (\<lambda>c. \<not> is_space c \<and> c \<noteq> CHR ''-'') w"

text \<open>The values of a group whose tokens all convert.\<close>

definition float_values :: "(string \<Rightarrow> 'a option) \<Rightarrow> string list \<Rightarrow> 'a list" where
  "float_values to_float vals = map (\<lambda>el. the (to_float el)) vals"

text \<open>
  The coordinate transformation between equal spatial references: when the destination
  is the default \<^verbatim>\<open>NSR()\<close> itself, \<^verbatim>\<open>TransformPoint\<close> returns the point it is given.
\<close>

definition same_srs :: "real \<Rightarrow> real \<Rightarrow> real \<times> real" where
  "same_srs x y = (x, y)"

section \<open>Basic facts\<close>

lemma and_then_simps:
  "and_then (Inl e) f = Inl e"
  "and_then (Inr x) f = f x"
  by (simp_all add: and_then_def)

section \<open>The parser: splitting and checking\<close>

lemma split_on_ne [simp]: "split_on sep s \<noteq> []"
  by (induction s) (simp_all add: cons_first_def)

lemma length_split_on: "length (split_on sep s) = Suc (count_list s sep)"
  by (induction s) (simp_all add: cons_first_def)

lemma count_list_dropWhile: "\<not> P c \<Longrightarrow> count_list (dropWhile P s) c = count_list s c"
  by (induction s) auto

lemma count_list_strip: "\<not> is_space c \<Longrightarrow> count_list (strip s) c = count_list s c"
  by (simp add: strip_def count_list_dropWhile)

lemma length_option_groups: "length (option_groups s) = count_list s (CHR ''-'')"
  by (simp add: option_groups_def length_split_on count_list_strip is_space_def)

lemma floats_cases:
  "floats to_float vals =
     (if list_all (\<lambda>el. to_float el \<noteq> None) vals then Inr (float_values to_float vals)
      else Inl ValueError)"
  by (induction vals) (auto simp: and_then_def float_values_def split: option.splits)

lemma check_extent_input_Cons:
  "check_extent_input to_float (name # vals) params n =
     (if name \<notin> set params then Inl (OptionError (UnexpectedOption name))
      else if \<not> list_all (\<lambda>el. to_float el \<noteq> None) vals then Inl (OptionError NotNumeric)
      else if length vals \<noteq> n then Inl (OptionError (WrongArity name n (length vals)))
      else Inr ())"
  by (simp add: check_extent_input_def floats_cases float_values_def)

lemma create_extent_dict_groups:
  "create_extent_dict to_float s =
     (if length (option_groups s) \<noteq> 2
      then Inl (OptionError (GroupCount (length (option_groups s))))
      else and_then (check_extent_input to_float (option_groups s ! 0) [''te'', ''lle''] 4) (\<lambda>_.
           and_then (check_extent_input to_float (option_groups s ! 1) [''ts'', ''tr''] 2) (\<lambda>_.
           fill_extent to_float (option_groups s) Map.empty)))"
  by (simp add: create_extent_dict_def option_groups_def Let_def)

lemma create_extent_dict_two:
  assumes "option_groups s = [name1 # vals1, name2 # vals2]"
  shows "create_extent_dict to_float s =
     (if name1 \<notin> set [''te'', ''lle''] then Inl (OptionError (UnexpectedOption name1))
      else if \<not> list_all (\<lambda>el. to_float el \<noteq> None) vals1 then Inl (OptionError NotNumeric)
      else if length vals1 \<noteq> 4 then Inl (OptionError (WrongArity name1 4 (length vals1)))
      else if name2 \<notin> set [''ts'', ''tr''] then Inl (OptionError (UnexpectedOption name2))
      else if \<not> list_all (\<lambda>el. to_float el \<noteq> None) vals2 then Inl (OptionError NotNumeric)
      else if length vals2 \<noteq> 2 then Inl (OptionError (WrongArity name2 2 (length vals2)))
      else Inr [name1 \<mapsto> float_values to_float vals1, name2 \<mapsto> float_values to_float vals2])"
  using assms
  by (simp add: create_extent_dict_groups check_extent_input_Cons floats_cases and_then_def)

lemma split_on_no_sep: "sep \<notin> set s \<Longrightarrow> split_on sep s = [s]"
  by (induction s) (auto simp: cons_first_def)

lemma split_on_append: "sep \<notin> set a \<Longrightarrow> split_on sep (a @ sep # b) = a # split_on sep b"
  by (induction a) (auto simp: cons_first_def)

lemma split_ws_word:
  assumes "w \<noteq> []" and "list_all (\<lambda>c. \<not> is_space c) w" and "rest = [] \<or> is_space (hd rest)"
  shows "split_ws (w @ rest) = w # split_ws rest"
  using assms
proof (induction w)
  case Nil
  then show ?case by simp
next
  case (Cons c w)
  show ?case
  proof (cases "w = []")
    case True
    with Cons.prems show ?thesis by (cases rest) auto
  next
    case False
    with Cons have "split_ws (w @ rest) = w # split_ws rest" by simp
    moreover from False Cons.prems have "\<not> is_space (hd (w @ rest))" by (cases w) auto
    ultimately show ?thesis using False Cons.prems by (simp add: cons_first_def)
  qed
qed

lemma split_ws_values:
  assumes "list_all (\<lambda>w. w \<noteq> [] \<and> list_all (\<lambda>c. \<not> is_space c) w) vals"
    and "rest = [] \<or> rest = '' ''"
  shows "split_ws (concat (map ((#) (CHR '' '')) vals) @ rest) = vals"
  using assms
proof (induction vals)
  case Nil
  then show ?case by (auto simp: is_space_def)
next
  case (Cons v vals)
  let ?tail = "concat (map ((#) (CHR '' '')) vals) @ rest"
  have tail: "?tail = [] \<or> is_space (hd ?tail)"
    using Cons.prems(2) by (cases vals) (auto simp: is_space_def)
  have "split_ws (CHR '' '' # v @ ?tail) = split_ws (v @ ?tail)"
    by (simp add: is_space_def)
  also have "\<dots> = v # split_ws ?tail"
    using Cons.prems(1) tail by (intro split_ws_word) auto
  also have "split_ws ?tail = vals"
    using Cons by simp
  finally show ?case by simp
qed

lemma plain_token_no_space: "plain_token w \<Longrightarrow> w \<noteq> [] \<and> list_all (\<lambda>c. \<not> is_space c) w"
  by (auto simp: plain_token_def list_all_iff)

lemma plain_token_no_hyphen: "plain_token w \<Longrightarrow> CHR ''-'' \<notin> set w"
  by (auto simp: plain_token_def list_all_iff)

lemma split_ws_group:
  assumes "plain_token name" and "list_all plain_token vals" and "rest = [] \<or> rest = '' ''"
  shows "split_ws (group_str name vals @ rest) = name # vals"
proof -
  let ?tail = "concat (map ((#) (CHR '' '')) vals) @ rest"
  have tail: "?tail = [] \<or> is_space (hd ?tail)"
    using assms(3) by (cases vals) (auto simp: is_space_def)
  have "split_ws (name @ ?tail) = name # split_ws ?tail"
    using plain_token_no_space [OF assms(1)] tail by (intro split_ws_word) auto
  moreover have "split_ws ?tail = vals"
    using assms(2,3) by (intro split_ws_values) (auto simp: list_all_iff plain_token_def)
  ultimately show ?thesis by (simp add: group_str_def)
qed

lemma hyphen_free_group:
  assumes "plain_token name" and "list_all plain_token vals"
  shows "CHR ''-'' \<notin> set (group_str name vals)"
  using assms by (auto simp: group_str_def list_all_iff dest: plain_token_no_hyphen)

lemma strip_id:
  assumes "s \<noteq> []" and "\<not> is_space (hd s)" and "\<not> is_space (last s)"
  shows "strip s = s"
proof -
  have "dropWhile is_space s = s" using assms by (cases s) auto
  moreover have "dropWhile is_space (rev s) = rev s"
    using assms by (cases "rev s") (auto simp: last_rev [symmetric] simp del: last_rev)
  ultimately show ?thesis by (simp add: strip_def)
qed

lemma last_group_str:
  assumes "plain_token name" and "list_all plain_token vals"
  shows "group_str name vals \<noteq> [] \<and> \<not> is_space (last (group_str name vals))"
proof (cases vals rule: rev_cases)
  case Nil
  with assms(1) show ?thesis
    by (auto simp: group_str_def plain_token_def list_all_iff)
next
  case (snoc vs v)
  with assms(2) have "plain_token v" by simp
  then have "v \<noteq> []" "\<not> is_space (last v)" by (auto simp: plain_token_def list_all_iff)
  with snoc show ?thesis by (simp add: group_str_def)
qed

lemma option_groups_extent_string:
  assumes "plain_token name1" and "list_all plain_token vals1"
    and "plain_token name2" and "list_all plain_token vals2"
  shows "option_groups (extent_string name1 vals1 name2 vals2) = [name1 # vals1, name2 # vals2]"
proof -
  let ?s = "extent_string name1 vals1 name2 vals2"
  have "last ?s = last (group_str name2 vals2)"
    using last_group_str [OF assms(3,4)] by (simp add: extent_string_def)
  then have "strip ?s = ?s"
    using last_group_str [OF assms(3,4)]
    by (intro strip_id) (auto simp: extent_string_def is_space_def)
  moreover have "split_on (CHR ''-'') ?s
      = [[], group_str name1 vals1 @ '' '', group_str name2 vals2]"
  proof -
    have "CHR ''-'' \<notin> set (group_str name1 vals1 @ '' '')"
      using hyphen_free_group [OF assms(1,2)] by simp
    then have "split_on (CHR ''-'') ((group_str name1 vals1 @ '' '') @ CHR ''-'' # group_str name2 vals2)
        = (group_str name1 vals1 @ '' '') # split_on (CHR ''-'') (group_str name2 vals2)"
      by (rule split_on_append)
    then show ?thesis
      using hyphen_free_group [OF assms(3,4)] by (simp add: extent_string_def split_on_no_sep)
  qed
  ultimately show ?thesis
    using split_ws_group [OF assms(1,2), of "'' ''"] split_ws_group [OF assms(3,4), of "[]"]
    by (simp add: option_groups_def)
qed

lemma count_list_concat_le:
  "v \<in> set vals \<Longrightarrow> count_list v c \<le> count_list (concat (map ((#) d) vals)) c"
  by (induction vals) auto

lemma count_list_group_str:
  "v \<in> set vals \<Longrightarrow> count_list v c \<le> count_list (group_str name vals) c"
  using count_list_concat_le [where v = v and vals = vals and c = c and d = "CHR '' ''"]
  by (simp add: group_str_def)

lemma too_many_groups:
  assumes "2 < count_list s (CHR ''-'')"
  shows "create_extent_dict to_float s = Inl (OptionError (GroupCount (count_list s (CHR ''-''))))"
  using assms by (simp add: create_extent_dict_groups length_option_groups)

lemma create_extent_dict_Inr_groups:
  assumes "create_extent_dict to_float s = Inr d"
  shows "\<exists>name1 vals1 name2 vals2. option_groups s = [name1 # vals1, name2 # vals2]"
proof -
  from assms have len: "length (option_groups s) = 2"
    by (auto simp: create_extent_dict_groups split: if_splits)
  then obtain g1 g2 where gs: "option_groups s = [g1, g2]"
    by (cases "option_groups s"; cases "tl (option_groups s)") auto
  from assms gs have "g1 \<noteq> []" "g2 \<noteq> []"
    by (auto simp: create_extent_dict_groups check_extent_input_def and_then_def
        split: if_splits sum.splits list.splits)
  with gs show ?thesis by (cases g1; cases g2) auto
qed

lemma create_extent_dict_Inr:
  assumes "create_extent_dict to_float s = Inr d"
  shows "\<exists>name1 vals1 name2 vals2.
           option_groups s = [name1 # vals1, name2 # vals2]
         \<and> name1 \<in> set [''te'', ''lle''] \<and> name2 \<in> set [''ts'', ''tr'']
         \<and> list_all (\<lambda>el. to_float el \<noteq> None) vals1 \<and> length vals1 = 4
         \<and> list_all (\<lambda>el. to_float el \<noteq> None) vals2 \<and> length vals2 = 2
         \<and> d = [name1 \<mapsto> float_values to_float vals1, name2 \<mapsto> float_values to_float vals2]"
proof -
  from create_extent_dict_Inr_groups [OF assms] obtain name1 vals1 name2 vals2
    where gs: "option_groups s = [name1 # vals1, name2 # vals2]" by blast
  show ?thesis
    using assms unfolding create_extent_dict_two [OF gs]
    by (intro exI [of _ name1] exI [of _ vals1] exI [of _ name2] exI [of _ vals2])
       (simp add: gs split: if_splits)
qed








text \<open>The definitions to unfold when the parser runs on a concrete string.\<close>

lemmas parse_eval =
  create_extent_dict_def check_extent_input_def and_then_def strip_def is_space_def
  cons_first_def py_float_def split_sign_def unsigned_float_def exponent_of_def digit_of_def

section \<open>The geotransform: both branches\<close>

lemma transform_tr_pair:
  "transform_tr width height [tr0, tr1] =
     (if width < tr0 \<or> height < - tr1 then Inl (OptionError (TrTooLarge width height))
      else if tr0 = 0 \<or> tr1 = 0 then Inl ZeroDivisionError
      else Inr (tr0, - tr1, width / tr0, \<bar>height / (- tr1)\<bar>))"
  by (simp add: transform_tr_def and_then_def getitem_def py_div_def)

lemma transform_ts_pair:
  "transform_ts width height [a, b] =
     (if a = 0 \<or> b = 0 then Inl ZeroDivisionError
      else Inr (width / a, - \<bar>height / b\<bar>, a, b))"
  by (simp add: transform_ts_def and_then_def py_div_def)

lemma get_geotransform_te:
  assumes "d ''te'' = Some [x0, y0, x1, y1]"
  shows "get_geotransform d =
     (if x1 - x0 \<le> 0 \<or> y1 - y0 \<le> 0 then Inl (OptionError IllegalExtent)
      else and_then
        (if d ''tr'' \<noteq> None
         then and_then (getkey d ''tr'') (transform_tr (x1 - x0) (y1 - y0))
         else and_then (getkey d ''ts'') (transform_ts (x1 - x0) (y1 - y0)))
        (\<lambda>(rx, ry, sx, sy). Inr ([x0, rx, 0, y1, 0, ry], py_int sx, py_int sy)))"
  using assms by (simp add: get_geotransform_def and_then_def getkey_def getitem_def Let_def)

lemma get_geotransform_tr:
  assumes "d ''te'' = Some [x0, y0, x1, y1]" and "d ''tr'' = Some [tr0, tr1]"
  shows "get_geotransform d =
     (if x1 - x0 \<le> 0 \<or> y1 - y0 \<le> 0 then Inl (OptionError IllegalExtent)
      else if x1 - x0 < tr0 \<or> y1 - y0 < - tr1
        then Inl (OptionError (TrTooLarge (x1 - x0) (y1 - y0)))
      else if tr0 = 0 \<or> tr1 = 0 then Inl ZeroDivisionError
      else Inr ([x0, tr0, 0, y1, 0, - tr1],
                py_int ((x1 - x0) / tr0), py_int \<bar>(y1 - y0) / (- tr1)\<bar>))"
  using assms by (simp add: get_geotransform_te transform_tr_pair and_then_def getkey_def)

lemma get_geotransform_ts:
  assumes "d ''te'' = Some [x0, y0, x1, y1]" and "d ''tr'' = None" and "d ''ts'' = Some [a, b]"
  shows "get_geotransform d =
     (if x1 - x0 \<le> 0 \<or> y1 - y0 \<le> 0 then Inl (OptionError IllegalExtent)
      else if a = 0 \<or> b = 0 then Inl ZeroDivisionError
      else Inr ([x0, (x1 - x0) / a, 0, y1, 0, - \<bar>(y1 - y0) / b\<bar>], py_int a, py_int b))"
  using assms by (simp add: get_geotransform_te transform_ts_pair and_then_def getkey_def)

lemma convert_extentDic_lle:
  assumes "d ''lle'' = Some [lon0, lat0, lon1, lat1]"
  shows "convert_extentDic tp d =
    Inr (d(''te'' \<mapsto>
      [min (fst (tp lon0 lat1)) (min (fst (tp lon1 lat1)) (min (fst (tp lon1 lat0)) (fst (tp lon0 lat0)))),
       min (snd (tp lon0 lat1)) (min (snd (tp lon1 lat1)) (min (snd (tp lon1 lat0)) (snd (tp lon0 lat0)))),
       max (fst (tp lon0 lat1)) (max (fst (tp lon1 lat1)) (max (fst (tp lon1 lat0)) (fst (tp lon0 lat0)))),
       max (snd (tp lon0 lat1)) (max (snd (tp lon1 lat1)) (max (snd (tp lon1 lat0)) (snd (tp lon0 lat0))))]))"
  using assms
  by (simp add: convert_extentDic_def and_then_def getkey_def getitem_def Let_def case_prod_beta)



text \<open>A dictionary built by hand with a negative \<open>tr[1]\<close>, which the parser never returns,
  gets the positive sixth coefficient \<open>- tr[1]\<close>.\<close>

lemma hand_built_negative_tr:
  "get_geotransform [''te'' \<mapsto> [0, 0, 100, 50], ''tr'' \<mapsto> [10, - 10]]
     = Inr ([0, 10, 0, 50, 0, 10], 10, 5)"
  by (simp add: get_geotransform_tr py_int_def)

lemma py_int_trunc: "\<bar>real_of_int (py_int x)\<bar> \<le> \<bar>x\<bar> \<and> \<bar>x - real_of_int (py_int x)\<bar> < 1"
  unfolding py_int_def by (auto; linarith)



text \<open>
  C6. The \<open>ts\<close> branch, for a box of positive width and height: the transform is
  \<open>(xmin, width / ts[0], 0, ymax, 0, - \<bar>height / ts[1]\<bar>)\<close> and the sizes are
  \<open>int(ts[0])\<close> and \<open>int(ts[1])\<close>, where \<open>int\<close> truncates toward zero: its result is
  no larger in magnitude than its argument and less than one away from it. The divisions
  are Python's and raise on a zero size. The witness is the box \<open>[0, 0, 100, 100]\<close> with
  \<open>ts = [100, 100]\<close>, and with \<open>ts = [2.5, 3.7]\<close>, whose sizes are \<open>(2, 3)\<close>.
\<close>

theorem C6_ts_branch:
  assumes "d ''te'' = Some [x0, y0, x1, y1]" and "d ''tr'' = None" and "d ''ts'' = Some [a, b]"
    and "0 < x1 - x0" and "0 < y1 - y0"
  shows "get_geotransform d =
           (if a = 0 \<or> b = 0 then Inl ZeroDivisionError
            else Inr ([x0, (x1 - x0) / a, 0, y1, 0, - \<bar>(y1 - y0) / b\<bar>], py_int a, py_int b))
       \<and> \<bar>real_of_int (py_int a)\<bar> \<le> \<bar>a\<bar> \<and> \<bar>a - real_of_int (py_int a)\<bar> < 1
       \<and> \<bar>real_of_int (py_int b)\<bar> \<le> \<bar>b\<bar> \<and> \<bar>b - real_of_int (py_int b)\<bar> < 1"
  using assms py_int_trunc [of a] py_int_trunc [of b] by (simp add: get_geotransform_ts)

theorem C6_ts_branch_witness:
  "get_geotransform [''te'' \<mapsto> [0, 0, 100, 100], ''ts'' \<mapsto> [100, 100]]
     = Inr ([0, 1, 0, 100, 0, - 1], 100, 100)
   \<and> get_geotransform [''te'' \<mapsto> [0, 0, 100, 100], ''ts'' \<mapsto> [5 / 2, 37 / 10]]
     = Inr ([0, 40, 0, 100, 0, - (1000 / 37)], 2, 3)"
  using C6_ts_branch [of "[''te'' \<mapsto> [0, 0, 100, 100], ''ts'' \<mapsto> [100, 100]]" 0 0 100 100 100 100]
    C6_ts_branch [of "[''te'' \<mapsto> [0, 0, 100, 100], ''ts'' \<mapsto> [5 / 2, 37 / 10]]" 0 0 100 100 "5 / 2" "37 / 10"]
  by (simp add: py_int_def)

text \<open>
  C8. In \<^verbatim>\<open>_transform_tr\<close>, for a positive height and a positive \<open>tr[1]\<close>, the
  comparison \<open>height < resolution_y\<close> is false, so an \<^verbatim>\<open>OptionError\<close> is raised
  exactly when \<open>width < resolution_x\<close>. The witness is the boundary case of height 5 and
  \<open>resolution_y = -10\<close>, which raises nothing.
\<close>

theorem C8_height_guard:
  assumes "0 < height" and "0 < tr1"
  shows "\<not> height < - tr1
       \<and> ((\<exists>m. transform_tr width height [tr0, tr1] = Inl (OptionError m)) \<longleftrightarrow> width < tr0)"
  using assms by (auto simp: transform_tr_pair)

theorem C8_height_guard_witness:
  "(0::real) < 5 \<and> (0::real) < 10 \<and> \<not> (5::real) < - 10
   \<and> \<not> (\<exists>m. transform_tr 100 5 [10, 10] = Inl (OptionError m))
   \<and> transform_tr 100 5 [10, 10] = Inr (10, - 10, 10, 1 / 2)
   \<and> transform_tr 5 5 [10, 10] = Inl (OptionError (TrTooLarge 5 5))"
  using C8_height_guard [of 5 10 100 10] C8_height_guard [of 5 10 5 10]
  by (simp add: transform_tr_pair)

text \<open>
  C10. The divisions are not guarded against zero. For a box of positive width and
  height, a \<open>ts\<close> pair with a zero raises \<^verbatim>\<open>ZeroDivisionError\<close>, and so does a
  \<open>tr\<close> pair with \<open>tr[0] = 0\<close> once the height comparison lets it through (the width
  comparison does: the width is positive). The validation of a \<open>ts\<close>/\<open>tr\<close> group only
  asks for two tokens that convert, whatever their values.
\<close>

theorem C10_zero_division:
  assumes "d ''te'' = Some [x0, y0, x1, y1]" and "0 < x1 - x0" and "0 < y1 - y0"
  shows "(d ''tr'' = None \<and> d ''ts'' = Some [a, b] \<and> (a = 0 \<or> b = 0)
            \<longrightarrow> get_geotransform d = Inl ZeroDivisionError)
       \<and> (d ''tr'' = Some [0, tr1] \<and> \<not> y1 - y0 < - tr1
            \<longrightarrow> get_geotransform d = Inl ZeroDivisionError)
       \<and> (name \<in> set [''ts'', ''tr''] \<and> to_float t1 = Some v1 \<and> to_float t2 = Some v2
            \<longrightarrow> check_extent_input to_float [name, t1, t2] [''ts'', ''tr''] 2 = Inr ())"
  using assms
  by (auto simp: get_geotransform_ts get_geotransform_tr check_extent_input_def and_then_def)

theorem C10_zero_division_witness:
  "create_extent_dict py_float ''-te 0 0 100 100 -ts 0 100''
     = Inr [''te'' \<mapsto> [0, 0, 100, 100], ''ts'' \<mapsto> [0, 100]]
   \<and> get_geotransform [''te'' \<mapsto> [0, 0, 100, 100], ''ts'' \<mapsto> [0, 100]] = Inl ZeroDivisionError
   \<and> create_extent_dict py_float ''-te 0 0 100 100 -tr 0 10''
     = Inr [''te'' \<mapsto> [0, 0, 100, 100], ''tr'' \<mapsto> [0, 10]]
   \<and> get_geotransform [''te'' \<mapsto> [0, 0, 100, 100], ''tr'' \<mapsto> [0, 10]] = Inl ZeroDivisionError"
proof -
  have ts: "get_geotransform [''te'' \<mapsto> [0, 0, 100, 100], ''ts'' \<mapsto> [0, 100]]
              = Inl ZeroDivisionError"
    using C10_zero_division [where d = "[''te'' \<mapsto> [0, 0, 100, 100], ''ts'' \<mapsto> [0, 100]]"
        and ?x0.0 = 0 and ?y0.0 = 0 and ?x1.0 = 100 and ?y1.0 = 100 and a = 0 and b = 100
        and ?tr1.0 = 0 and name = "''ts''" and to_float = py_float
        and ?t1.0 = "''0''" and ?v1.0 = 0 and ?t2.0 = "''100''" and ?v2.0 = 100]
    by simp
  have tr: "get_geotransform [''te'' \<mapsto> [0, 0, 100, 100], ''tr'' \<mapsto> [0, 10]]
              = Inl ZeroDivisionError"
    using C10_zero_division [where d = "[''te'' \<mapsto> [0, 0, 100, 100], ''tr'' \<mapsto> [0, 10]]"
        and ?x0.0 = 0 and ?y0.0 = 0 and ?x1.0 = 100 and ?y1.0 = 100 and ?tr1.0 = 10
        and a = 0 and b = 0 and name = "''tr''" and to_float = py_float
        and ?t1.0 = "''0''" and ?v1.0 = 0 and ?t2.0 = "''10''" and ?v2.0 = 10]
    by simp
  show ?thesis
    by (simp add: ts tr) (simp add: parse_eval)
qed

text \<open>
  C4. The string \<^verbatim>\<open>-te 0 0 100 5 -tr 10 10\<close> asks for a resolution of 10 on a height of
  5. The height is compared with \<open>-10\<close>, nothing is raised, and the raster height is
  \<open>int(0.5) = 0\<close>.
\<close>

theorem C4_zero_raster_height:
  "domain_from_extent py_float transform_point ''-te 0 0 100 5 -tr 10 10''
     = Inr (([0, 10, 0, 5, 0, - 10], 10, 0), [''te'' \<mapsto> [0, 0, 100, 5], ''tr'' \<mapsto> [10, 10]])"
  by (simp add: domain_from_extent_def parse_eval get_geotransform_tr py_int_def)

section \<open>The parser: the claims\<close>

text \<open>
  C9. An extent string in the documented format in which a value contains a minus sign
  (a negative number) has more than two hyphens; the parser splits at each of them, finds
  more than two groups and raises the group-count \<^verbatim>\<open>OptionError\<close>, whose payload is
  the number of hyphens. The witness is the example of the constructor's own docstring,
  \<^verbatim>\<open>-lle -10 30 55 60 -ts 1000 1000\<close>, and \<^verbatim>\<open>-te -10 30 55 60 -ts 100 100\<close>.
\<close>

theorem C9_negative_value:
  assumes "v \<in> set (vals1 @ vals2)" and "CHR ''-'' \<in> set v"
  shows "2 < count_list (extent_string name1 vals1 name2 vals2) (CHR ''-'')
       \<and> create_extent_dict to_float (extent_string name1 vals1 name2 vals2)
           = Inl (OptionError
               (GroupCount (count_list (extent_string name1 vals1 name2 vals2) (CHR ''-''))))"
proof -
  from assms(2) have pos: "0 < count_list v (CHR ''-'')"
    using count_list_0_iff [of v "CHR ''-''"] by auto
  from assms(1) have "v \<in> set vals1 \<or> v \<in> set vals2" by simp
  then have "count_list v (CHR ''-'')
      \<le> count_list (group_str name1 vals1) (CHR ''-'') + count_list (group_str name2 vals2) (CHR ''-'')"
    using count_list_group_str [of v vals1 "CHR ''-''" name1]
      count_list_group_str [of v vals2 "CHR ''-''" name2] by auto
  with pos have "0 < count_list (group_str name1 vals1) (CHR ''-'')
      + count_list (group_str name2 vals2) (CHR ''-'')"
    by linarith
  then have "2 < count_list (extent_string name1 vals1 name2 vals2) (CHR ''-'')"
    by (simp add: extent_string_def)
  then show ?thesis by (simp add: too_many_groups)
qed

theorem C9_negative_value_witness:
  "extent_string ''lle'' [''-10'', ''30'', ''55'', ''60''] ''ts'' [''1000'', ''1000'']
     = ''-lle -10 30 55 60 -ts 1000 1000''
   \<and> create_extent_dict py_float ''-lle -10 30 55 60 -ts 1000 1000''
     = Inl (OptionError (GroupCount 3))
   \<and> extent_string ''te'' [''-10'', ''30'', ''55'', ''60''] ''ts'' [''100'', ''100'']
     = ''-te -10 30 55 60 -ts 100 100''
   \<and> create_extent_dict py_float ''-te -10 30 55 60 -ts 100 100''
     = Inl (OptionError (GroupCount 3))"
  using C9_negative_value [of "''-10''" "[''-10'', ''30'', ''55'', ''60'']" "[''1000'', ''1000'']"
      "''lle''" "''ts''" py_float]
    C9_negative_value [of "''-10''" "[''-10'', ''30'', ''55'', ''60'']" "[''100'', ''100'']"
      "''te''" "''ts''" py_float]
  by (simp add: extent_string_def group_str_def)

text \<open>
  C1, as stated, fails: the groups are checked by position. With the \<open>tr\<close> group first
  the parser raises, where the \<open>te\<close> group first gives the mapping.
\<close>

theorem C1_swapped_order_counterexample:
  "create_extent_dict py_float ''-tr 300 200 -te 100 2000 300 10000''
     = Inl (OptionError (UnexpectedOption ''tr''))
   \<and> create_extent_dict py_float ''-te 100 2000 300 10000 -tr 300 200''
     = Inr [''te'' \<mapsto> [100, 2000, 300, 10000], ''tr'' \<mapsto> [300, 200]]"
  by (simp add: parse_eval)

text \<open>
  C1, amended. The parser accepts one order only. For an extent string in the documented
  format whose first group is named \<open>te\<close> or \<open>lle\<close> and has four numeric tokens, and
  whose second group is named \<open>ts\<close> or \<open>tr\<close> and has two, the result maps each name to
  the floats of its tokens; the string with the same two groups in the other order raises
  the \<^verbatim>\<open>OptionError\<close> for an unexpected option name, the name of the \<open>ts\<close>/\<open>tr\<close>
  group.
\<close>

theorem C1_group_order:
  assumes "name1 \<in> set [''te'', ''lle'']" and "name2 \<in> set [''ts'', ''tr'']"
    and "list_all plain_token vals1" and "list_all plain_token vals2"
    and "list_all (\<lambda>el. to_float el \<noteq> None) vals1" and "length vals1 = 4"
    and "list_all (\<lambda>el. to_float el \<noteq> None) vals2" and "length vals2 = 2"
  shows "create_extent_dict to_float (extent_string name1 vals1 name2 vals2)
           = Inr [name1 \<mapsto> float_values to_float vals1, name2 \<mapsto> float_values to_float vals2]
       \<and> create_extent_dict to_float (extent_string name2 vals2 name1 vals1)
           = Inl (OptionError (UnexpectedOption name2))"
proof -
  from assms(1,2) have names: "plain_token name1" "plain_token name2"
    by (auto simp: plain_token_def is_space_def)
  have "option_groups (extent_string name1 vals1 name2 vals2) = [name1 # vals1, name2 # vals2]"
    using names(1) assms(3) names(2) assms(4) by (rule option_groups_extent_string)
  moreover have "option_groups (extent_string name2 vals2 name1 vals1) = [name2 # vals2, name1 # vals1]"
    using names(2) assms(4) names(1) assms(3) by (rule option_groups_extent_string)
  moreover from assms(2) have "name2 \<notin> set [''te'', ''lle'']" by auto
  ultimately show ?thesis
    using assms by (simp add: create_extent_dict_two)
qed

theorem C1_group_order_witness:
  "extent_string ''te'' [''100'', ''2000'', ''300'', ''10000''] ''tr'' [''300'', ''200'']
     = ''-te 100 2000 300 10000 -tr 300 200''
   \<and> extent_string ''tr'' [''300'', ''200''] ''te'' [''100'', ''2000'', ''300'', ''10000'']
     = ''-tr 300 200 -te 100 2000 300 10000''
   \<and> create_extent_dict py_float ''-te 100 2000 300 10000 -tr 300 200''
     = Inr [''te'' \<mapsto> [100, 2000, 300, 10000], ''tr'' \<mapsto> [300, 200]]
   \<and> create_extent_dict py_float ''-tr 300 200 -te 100 2000 300 10000''
     = Inl (OptionError (UnexpectedOption ''tr''))"
proof -
  have num: "py_float ''100'' = Some 100" "py_float ''2000'' = Some 2000"
    "py_float ''300'' = Some 300" "py_float ''10000'' = Some 10000" "py_float ''200'' = Some 200"
    by (simp_all add: parse_eval)
  have str: "extent_string ''te'' [''100'', ''2000'', ''300'', ''10000''] ''tr'' [''300'', ''200'']
      = ''-te 100 2000 300 10000 -tr 300 200''"
    "extent_string ''tr'' [''300'', ''200''] ''te'' [''100'', ''2000'', ''300'', ''10000'']
      = ''-tr 300 200 -te 100 2000 300 10000''"
    by (simp_all add: extent_string_def group_str_def)
  show ?thesis
    using C1_group_order [of "''te''" "''tr''" "[''100'', ''2000'', ''300'', ''10000'']"
        "[''300'', ''200'']" py_float]
    by (simp add: str num plain_token_def is_space_def float_values_def)
qed

text \<open>
  C7, as stated, fails: for an \<open>lle\<close> string the dictionary the constructor keeps has three
  keys, since \<^verbatim>\<open>_convert_extentDic\<close> stores \<open>te\<close> in the dictionary the parser built.
  Here the destination reference is the geographic one, so the box is unchanged.
\<close>

theorem C7_three_keys_counterexample:
  "domain_from_extent py_float same_srs ''-lle 0 0 1 1 -ts 10 10''
     = Inr (([0, 1 / 10, 0, 1, 0, - (1 / 10)], 10, 10),
            [''lle'' \<mapsto> [0, 0, 1, 1], ''ts'' \<mapsto> [10, 10], ''te'' \<mapsto> [0, 0, 1, 1]])
   \<and> card (dom [''lle'' \<mapsto> [0, 0, 1, 1 :: real], ''ts'' \<mapsto> [10, 10], ''te'' \<mapsto> [0, 0, 1, 1]]) = 3"
  by (simp add: domain_from_extent_def parse_eval convert_extentDic_def getkey_def getitem_def
      same_srs_def get_geotransform_ts py_int_def)

text \<open>
  C7, amended. A dictionary returned by the parser has exactly two keys, the name of the
  first group (\<open>te\<close> or \<open>lle\<close>, four values) and the name of the second (\<open>ts\<close> or
  \<open>tr\<close>, two values), each value the float of its token. When the first key is \<open>lle\<close>,
  \<^verbatim>\<open>_convert_extentDic\<close> succeeds and its result is that dictionary with a third key
  \<open>te\<close> holding a box of four values: the keys are then \<open>lle\<close>, \<open>te\<close> and the
  \<open>ts\<close>/\<open>tr\<close> key. (The source writes the key into the same dictionary object.)
\<close>

theorem C7_extent_dict_keys:
  fixes to_float :: "string \<Rightarrow> real option"
  assumes "create_extent_dict to_float s = Inr d"
  shows "\<exists>name1 vals1 name2 vals2.
           option_groups s = [name1 # vals1, name2 # vals2]
         \<and> name1 \<in> set [''te'', ''lle''] \<and> name2 \<in> set [''ts'', ''tr'']
         \<and> dom d = {name1, name2} \<and> card (dom d) = 2
         \<and> d name1 = Some (float_values to_float vals1) \<and> length (float_values to_float vals1) = 4
         \<and> d name2 = Some (float_values to_float vals2) \<and> length (float_values to_float vals2) = 2
         \<and> (name1 = ''lle'' \<longrightarrow>
              (\<exists>box. convert_extentDic transform_point d = Inr (d(''te'' \<mapsto> box))
                   \<and> length box = 4
                   \<and> dom (d(''te'' \<mapsto> box)) = {''lle'', ''te'', name2}
                   \<and> card (dom (d(''te'' \<mapsto> box))) = 3))"
proof -
  from create_extent_dict_Inr [OF assms] obtain name1 vals1 name2 vals2 where
    gs: "option_groups s = [name1 # vals1, name2 # vals2]"
    and n1: "name1 \<in> set [''te'', ''lle'']" and n2: "name2 \<in> set [''ts'', ''tr'']"
    and l1: "length vals1 = 4" and l2: "length vals2 = 2"
    and d: "d = [name1 \<mapsto> float_values to_float vals1, name2 \<mapsto> float_values to_float vals2]"
    by blast
  from n1 n2 have ne: "name1 \<noteq> name2" by auto
  have conv: "\<exists>box. convert_extentDic transform_point d = Inr (d(''te'' \<mapsto> box))
                   \<and> length box = 4
                   \<and> dom (d(''te'' \<mapsto> box)) = {''lle'', ''te'', name2}
                   \<and> card (dom (d(''te'' \<mapsto> box))) = 3" if lle: "name1 = ''lle''"
  proof -
    from l1 obtain a b c e where "float_values to_float vals1 = [a, b, c, e]"
      by (cases vals1; cases "tl vals1"; cases "tl (tl vals1)"; cases "tl (tl (tl vals1))")
         (auto simp: float_values_def)
    with d lle ne have "d ''lle'' = Some [a, b, c, e]" by simp
    from convert_extentDic_lle [where d = d and tp = transform_point, OF this] obtain box where
      "convert_extentDic transform_point d = Inr (d(''te'' \<mapsto> box))" "length box = 4" by simp
    moreover from d lle n2 have "dom (d(''te'' \<mapsto> box)) = {''lle'', ''te'', name2}" by auto
    moreover from n2 have "card {''lle'', ''te'', name2} = 3" by auto
    ultimately show ?thesis by auto
  qed
  from d ne have "dom d = {name1, name2}" "card (dom d) = 2" by auto
  with gs n1 n2 l1 l2 d ne conv show ?thesis
    by (intro exI [of _ name1] exI [of _ vals1] exI [of _ name2] exI [of _ vals2])
       (simp add: float_values_def)
qed

theorem C7_extent_dict_keys_witness:
  "create_extent_dict py_float ''-lle 0 0 1 1 -ts 10 10''
     = Inr [''lle'' \<mapsto> [0, 0, 1, 1], ''ts'' \<mapsto> [10, 10]]
   \<and> dom [''lle'' \<mapsto> [0, 0, 1, 1 :: real], ''ts'' \<mapsto> [10, 10]] = {''lle'', ''ts''}
   \<and> convert_extentDic same_srs [''lle'' \<mapsto> [0, 0, 1, 1], ''ts'' \<mapsto> [10, 10]]
     = Inr [''lle'' \<mapsto> [0, 0, 1, 1], ''ts'' \<mapsto> [10, 10], ''te'' \<mapsto> [0, 0, 1, 1]]"
proof -
  have p: "create_extent_dict py_float ''-lle 0 0 1 1 -ts 10 10''
     = Inr [''lle'' \<mapsto> [0, 0, 1, 1], ''ts'' \<mapsto> [10, 10]]"
    by (simp add: parse_eval)
  from C7_extent_dict_keys [OF p, of same_srs]
  have "dom [''lle'' \<mapsto> [0, 0, 1, 1 :: real], ''ts'' \<mapsto> [10, 10]] = {''lle'', ''ts''}"
    by auto
  then show ?thesis
    using p by (simp add: convert_extentDic_def and_then_def getkey_def getitem_def same_srs_def)
qed






end
